theory Spec2Isabelle
  imports Complex_Main "HOL-Library.Word"
begin

section \<open>Go strings\<close>

text \<open>
  A Go string is a sequence of bytes; source text is UTF-8. The model uses
  \<^typ>\<open>string\<close> (a list of 8-bit characters), so a pictogram is the list of the bytes
  of its UTF-8 encoding, exactly as the Go compiler stores the literal.
\<close>

fun Join :: "string list \<Rightarrow> string \<Rightarrow> string" where
  "Join [] sep = []"
| "Join [x] sep = x"
| "Join (x # y # zs) sep = x @ sep @ Join (y # zs) sep"

section \<open>Icon lookup\<close>

text \<open>
  The package-level map \<^verbatim>\<open>icons\<close> of \<^verbatim>\<open>cmd/root.go\<close>, entry by entry in the order of
  the literal. The pictograms are U+2600 U+FE0F (sun), U+26C5 U+FE0F, U+2601 U+FE0F,
  U+1F327 U+FE0F, U+1F326 U+FE0F, U+26C8 U+FE0F, U+1F328 U+FE0F and U+1F32B (fog, no
  variation selector).
\<close>

definition icons :: "(string \<times> string) list" where
  "icons =
    [(''01d'', [CHR 0xE2, CHR 0x98, CHR 0x80, CHR 0xEF, CHR 0xB8, CHR 0x8F]),
     (''02d'', [CHR 0xE2, CHR 0x9B, CHR 0x85, CHR 0xEF, CHR 0xB8, CHR 0x8F]),
     (''03d'', [CHR 0xE2, CHR 0x98, CHR 0x81, CHR 0xEF, CHR 0xB8, CHR 0x8F]),
     (''04d'', [CHR 0xE2, CHR 0x98, CHR 0x81, CHR 0xEF, CHR 0xB8, CHR 0x8F]),
     (''09d'', [CHR 0xF0, CHR 0x9F, CHR 0x8C, CHR 0xA7, CHR 0xEF, CHR 0xB8, CHR 0x8F]),
     (''10d'', [CHR 0xF0, CHR 0x9F, CHR 0x8C, CHR 0xA6, CHR 0xEF, CHR 0xB8, CHR 0x8F]),
     (''11d'', [CHR 0xE2, CHR 0x9B, CHR 0x88, CHR 0xEF, CHR 0xB8, CHR 0x8F]),
     (''13d'', [CHR 0xF0, CHR 0x9F, CHR 0x8C, CHR 0xA8, CHR 0xEF, CHR 0xB8, CHR 0x8F]),
     (''50d'', [CHR 0xF0, CHR 0x9F, CHR 0x8C, CHR 0xAB]),
     (''01n'', [CHR 0xE2, CHR 0x98, CHR 0x80, CHR 0xEF, CHR 0xB8, CHR 0x8F]),
     (''02n'', [CHR 0xE2, CHR 0x9B, CHR 0x85, CHR 0xEF, CHR 0xB8, CHR 0x8F]),
     (''03n'', [CHR 0xE2, CHR 0x98, CHR 0x81, CHR 0xEF, CHR 0xB8, CHR 0x8F]),
     (''04n'', [CHR 0xE2, CHR 0x98, CHR 0x81, CHR 0xEF, CHR 0xB8, CHR 0x8F]),
     (''09n'', [CHR 0xF0, CHR 0x9F, CHR 0x8C, CHR 0xA7, CHR 0xEF, CHR 0xB8, CHR 0x8F]),
     (''10n'', [CHR 0xF0, CHR 0x9F, CHR 0x8C, CHR 0xA6, CHR 0xEF, CHR 0xB8, CHR 0x8F]),
     (''11n'', [CHR 0xE2, CHR 0x9B, CHR 0x88, CHR 0xEF, CHR 0xB8, CHR 0x8F]),
     (''13n'', [CHR 0xF0, CHR 0x9F, CHR 0x8C, CHR 0xA8, CHR 0xEF, CHR 0xB8, CHR 0x8F]),
     (''50n'', [CHR 0xF0, CHR 0x9F, CHR 0x8C, CHR 0xAB])]"

text \<open>
  \<^verbatim>\<open>icons[k]\<close>: indexing a Go map with a key it does not hold yields the zero value of
  the element type, here the empty string; it does not fail.
\<close>

definition icons_at :: "string \<Rightarrow> string" where
  "icons_at k = (case map_of icons k of None \<Rightarrow> [] | Some v \<Rightarrow> v)"

section \<open>Formatter: the text line\<close>

text \<open>The literal \<^verbatim>\<open>" \<degree>C"\<close>: a space, the two bytes of U+00B0, and C.\<close>

definition degC :: string where
  "degC = [CHR 0x20, CHR 0xC2, CHR 0xB0, CHR ''C'']"

text \<open>The function \<^verbatim>\<open>text\<close> of the source (the name is an Isabelle keyword).\<close>

definition text_str :: "string \<Rightarrow> string \<Rightarrow> string" where
  "text_str icon temp = Join [icon, '' '', temp, degC] []"

section \<open>Condition lookup\<close>

text \<open>
  \<^verbatim>\<open>openweathermap.ConditionData\<close> belongs to the client library; \<^verbatim>\<open>description\<close>
  reads its fields \<^verbatim>\<open>ID\<close> and \<^verbatim>\<open>Meaning\<close>. The seven tables are package variables of
  the library, so the model takes them as a parameter. Their elements are pointers to
  composite literals, never nil.
\<close>

record ConditionData =
  ID :: int
  Meaning :: string

record ConditionTables =
  ThunderstormConditions :: "ConditionData list"
  DrizzleConditions :: "ConditionData list"
  RainConditions :: "ConditionData list"
  SnowConditions :: "ConditionData list"
  AtmosphereConditions :: "ConditionData list"
  CloudConditions :: "ConditionData list"
  AdditionalConditions :: "ConditionData list"

definition groups :: "ConditionTables \<Rightarrow> ConditionData list list" where
  "groups T =
    [ThunderstormConditions T, DrizzleConditions T, RainConditions T, SnowConditions T,
     AtmosphereConditions T, CloudConditions T, AdditionalConditions T]"

text \<open>
  The inner loop \<^verbatim>\<open>for c := range groups[g]\<close>: \<open>Some m\<close> when it executes
  \<^verbatim>\<open>return groups[g][c].Meaning\<close>, \<open>None\<close> when it runs to its end.
\<close>

fun scan_group :: "ConditionData list \<Rightarrow> int \<Rightarrow> string option" where
  "scan_group [] i = None"
| "scan_group (c # cs) i = (if ID c = i then Some (Meaning c) else scan_group cs i)"

text \<open>The outer loop \<^verbatim>\<open>for g := range groups\<close>, followed by \<^verbatim>\<open>return ""\<close>.\<close>

fun scan_groups :: "ConditionData list list \<Rightarrow> int \<Rightarrow> string" where
  "scan_groups [] i = []"
| "scan_groups (g # gs) i =
    (case scan_group g i of Some m \<Rightarrow> m | None \<Rightarrow> scan_groups gs i)"

definition description :: "ConditionTables \<Rightarrow> int \<Rightarrow> string" where
  "description T i = scan_groups (groups T) i"

text \<open>A small instance of the tables, for evaluating the lookup.\<close>

definition sample_tables :: ConditionTables where
  "sample_tables =
    \<lparr>ThunderstormConditions = [\<lparr>ID = 200, Meaning = ''thunderstorm with light rain''\<rparr>],
     DrizzleConditions = [\<lparr>ID = 300, Meaning = ''light intensity drizzle''\<rparr>],
     RainConditions = [\<lparr>ID = 500, Meaning = ''light rain''\<rparr>, \<lparr>ID = 501, Meaning = ''moderate rain''\<rparr>],
     SnowConditions = [\<lparr>ID = 600, Meaning = ''light snow''\<rparr>],
     AtmosphereConditions = [\<lparr>ID = 701, Meaning = ''mist''\<rparr>],
     CloudConditions = [\<lparr>ID = 800, Meaning = ''clear sky''\<rparr>, \<lparr>ID = 801, Meaning = ''few clouds''\<rparr>],
     AdditionalConditions = [\<lparr>ID = 951, Meaning = ''calm''\<rparr>, \<lparr>ID = 800, Meaning = ''shadowed''\<rparr>]\<rparr>"

section \<open>Leading whitespace\<close>

text \<open>
  \<^verbatim>\<open>tooltip\<close> calls \<^verbatim>\<open>strings.TrimLeftFunc(s, unicode.IsSpace)\<close>, which walks the
  string rune by rune. Both belong to the Go standard library; they are modelled here
  as the library implements them. Decoding follows \<^verbatim>\<open>utf8.DecodeRuneInString\<close>: the
  first byte gives the length of the sequence and the range its second byte must lie
  in; a byte that starts no valid sequence decodes to \<^verbatim>\<open>RuneError\<close> with width 1.
\<close>

definition RuneError :: nat where
  "RuneError = 0xFFFD"

definition locb :: nat where
  "locb = 0x80"

definition hicb :: nat where
  "hicb = 0xBF"

definition rune_size :: "nat \<Rightarrow> nat" where
  "rune_size s0 =
    (if 0xC2 \<le> s0 \<and> s0 \<le> 0xDF then 2
     else if 0xE0 \<le> s0 \<and> s0 \<le> 0xEF then 3
     else if 0xF0 \<le> s0 \<and> s0 \<le> 0xF4 then 4
     else 1)"

definition accept_lo :: "nat \<Rightarrow> nat" where
  "accept_lo s0 = (if s0 = 0xE0 then 0xA0 else if s0 = 0xF0 then 0x90 else locb)"

definition accept_hi :: "nat \<Rightarrow> nat" where
  "accept_hi s0 = (if s0 = 0xED then 0x9F else if s0 = 0xF4 then 0x8F else hicb)"

fun DecodeRune :: "nat list \<Rightarrow> nat \<times> nat" where
  "DecodeRune [] = (RuneError, 0)"
| "DecodeRune (s0 # rest) =
    (if s0 < 0x80 then (s0, 1)
     else if rune_size s0 = 1 then (RuneError, 1)
     else if length (s0 # rest) < rune_size s0 then (RuneError, 1)
     else
       let s1 = rest ! 0 in
       if s1 < accept_lo s0 \<or> accept_hi s0 < s1 then (RuneError, 1)
       else if rune_size s0 \<le> 2 then ((s0 mod 32) * 64 + s1 mod 64, 2)
       else
         let s2 = rest ! 1 in
         if s2 < locb \<or> hicb < s2 then (RuneError, 1)
         else if rune_size s0 \<le> 3 then
           ((s0 mod 16) * 4096 + (s1 mod 64) * 64 + s2 mod 64, 3)
         else
           let s3 = rest ! 2 in
           if s3 < locb \<or> hicb < s3 then (RuneError, 1)
           else ((s0 mod 8) * 262144 + (s1 mod 64) * 4096 + (s2 mod 64) * 64 + s3 mod 64, 4))"

definition DecodeRuneInString :: "string \<Rightarrow> nat \<times> nat" where
  "DecodeRuneInString s = DecodeRune (map of_char s)"

text \<open>
  \<^verbatim>\<open>unicode.IsSpace\<close>: in Latin-1 the runes tab, line feed, vertical tab, form feed,
  carriage return, space, U+0085 and U+00A0; above it the White_Space property.
\<close>

definition IsSpace :: "nat \<Rightarrow> bool" where
  "IsSpace r \<longleftrightarrow>
    (if r \<le> 0xFF then r \<in> {0x09, 0x0A, 0x0B, 0x0C, 0x0D, 0x20, 0x85, 0xA0}
     else r = 0x1680 \<or> (0x2000 \<le> r \<and> r \<le> 0x200A) \<or> r = 0x2028 \<or> r = 0x2029
       \<or> r = 0x202F \<or> r = 0x205F \<or> r = 0x3000)"

text \<open>
  \<^verbatim>\<open>strings.TrimLeftFunc(s, f)\<close>: the suffix of \<open>s\<close> that starts at the first rune
  for which \<open>f\<close> is false, and the empty string when there is none.
\<close>

function TrimLeftFunc :: "string \<Rightarrow> (nat \<Rightarrow> bool) \<Rightarrow> string" where
  "TrimLeftFunc s f =
    (if s = [] then []
     else if f (fst (DecodeRuneInString s))
       then TrimLeftFunc (drop (snd (DecodeRuneInString s)) s) f
     else s)"
  by pat_completeness auto
termination
proof (relation "measure (\<lambda>(s, f). length s)")
  show "wf (measure (\<lambda>(s, f). length s))"
    by simp
next
  fix s :: string and f :: "nat \<Rightarrow> bool"
  assume nonempty: "s \<noteq> []"
  have "1 \<le> snd (DecodeRune bs)" if "bs \<noteq> []" for bs
    using that by (cases bs) (simp_all add: Let_def)
  from this [of "map of_char s"] nonempty have "1 \<le> snd (DecodeRuneInString s)"
    by (simp add: DecodeRuneInString_def)
  with nonempty
  show "((drop (snd (DecodeRuneInString s)) s, f), (s, f)) \<in> measure (\<lambda>(s, f). length s)"
    by simp
qed

declare TrimLeftFunc.simps [simp del]

definition starts_with_space :: "string \<Rightarrow> bool" where
  "starts_with_space s \<longleftrightarrow> s \<noteq> [] \<and> IsSpace (fst (DecodeRuneInString s))"

section \<open>Formatter: the tooltip\<close>

definition nl :: string where
  "nl = [CHR 0x0A]"

text \<open>
  \<^verbatim>\<open>cases.Title(language.German)\<close> comes from \<^verbatim>\<open>golang.org/x/text\<close>; its \<^verbatim>\<open>String\<close>
  method is the parameter \<open>caser\<close>.
\<close>

definition tooltip ::
  "(string \<Rightarrow> string) \<Rightarrow> string \<Rightarrow> string \<Rightarrow> string \<Rightarrow> string \<Rightarrow> string \<Rightarrow> string \<Rightarrow> string
    \<Rightarrow> string" where
  "tooltip caser desc feelsLike pressure humidity sunrise sunset windspeed =
    TrimLeftFunc (Join
      [caser desc,
       nl,
       ''Feels like '',
       feelsLike,
       degC @ nl,
       ''Pressure '',
       pressure,
       '' hPa'' @ nl,
       ''Humidity '',
       humidity,
       ''%'' @ nl,
       ''Sunrise '',
       sunrise,
       nl,
       ''Sunset '',
       sunset,
       nl,
       ''Wind speed '',
       windspeed,
       '' m/sec''] []) IsSpace"

text \<open>
  The six labelled lines as the specification lists them, for stating what
  \<^verbatim>\<open>tooltip\<close> returns.
\<close>

definition labelled_lines ::
  "string \<Rightarrow> string \<Rightarrow> string \<Rightarrow> string \<Rightarrow> string \<Rightarrow> string \<Rightarrow> string" where
  "labelled_lines feelsLike pressure humidity sunrise sunset windspeed =
    ''Feels like '' @ feelsLike @ degC @ nl @
    ''Pressure '' @ pressure @ '' hPa'' @ nl @
    ''Humidity '' @ humidity @ ''%'' @ nl @
    ''Sunrise '' @ sunrise @ nl @
    ''Sunset '' @ sunset @ nl @
    ''Wind speed '' @ windspeed @ '' m/sec''"

text \<open>
  An instance of the caser for evaluation: on words of ASCII letters separated by
  spaces, title casing puts the first letter of each word in upper case and the others
  in lower case.
\<close>

definition to_upper :: "char \<Rightarrow> char" where
  "to_upper c =
    (if (97::nat) \<le> of_char c \<and> of_char c \<le> (122::nat) then char_of (of_char c - (32::nat))
     else c)"

definition to_lower :: "char \<Rightarrow> char" where
  "to_lower c =
    (if (65::nat) \<le> of_char c \<and> of_char c \<le> (90::nat) then char_of (of_char c + (32::nat))
     else c)"

fun title_from :: "bool \<Rightarrow> string \<Rightarrow> string" where
  "title_from start [] = []"
| "title_from start (c # cs) =
    (if c = CHR '' '' then c # title_from True cs
     else (if start then to_upper c else to_lower c) # title_from False cs)"

definition title_ascii :: "string \<Rightarrow> string" where
  "title_ascii s = title_from True s"

section \<open>Numbers\<close>

text \<open>
  A \<^verbatim>\<open>float64\<close> is a finite value (a rational; every finite double is one), negative
  zero, an infinity or a NaN. The program never does arithmetic on one: it converts to
  \<^verbatim>\<open>int64\<close> and it formats, and both are exact functions of the value. The values
  used for evaluation below (4.5, 52.25, 21.25, 20.75, 3.5, 1013 and 2 to the power 63)
  are doubles.
\<close>

datatype float64 = Finite rat | NegZero | PosInf | NegInf | NaN

definition signbit :: "float64 \<Rightarrow> bool" where
  "signbit x =
    (case x of Finite q \<Rightarrow> q < 0 | NegZero \<Rightarrow> True | NegInf \<Rightarrow> True | _ \<Rightarrow> False)"

definition magnitude :: "float64 \<Rightarrow> rat" where
  "magnitude x = (case x of Finite q \<Rightarrow> \<bar>q\<bar> | _ \<Rightarrow> 0)"

definition is_finite :: "float64 \<Rightarrow> bool" where
  "is_finite x = (case x of Finite q \<Rightarrow> True | NegZero \<Rightarrow> True | _ \<Rightarrow> False)"

text \<open>
  The conversion \<^verbatim>\<open>int64(x)\<close> of a \<^verbatim>\<open>float64\<close>. The language discards the fraction;
  when the result does not fit the target type, the value is implementation-dependent
  (some 64-bit pattern), which is the parameter \<open>ovf\<close>.
\<close>

definition discard_fraction :: "float64 \<Rightarrow> int" where
  "discard_fraction x = (if signbit x then - \<lfloor>magnitude x\<rfloor> else \<lfloor>magnitude x\<rfloor>)"

definition fits_int64 :: "float64 \<Rightarrow> bool" where
  "fits_int64 x \<longleftrightarrow>
    is_finite x \<and> - (2 ^ 63) \<le> discard_fraction x \<and> discard_fraction x < 2 ^ 63"

definition int64 :: "(float64 \<Rightarrow> 64 word) \<Rightarrow> float64 \<Rightarrow> int" where
  "int64 ovf x = (if fits_int64 x then discard_fraction x else sint (ovf x))"

text \<open>On amd64 the conversion instruction yields the smallest \<^verbatim>\<open>int64\<close> out of range.\<close>

definition ovf_amd64 :: "float64 \<Rightarrow> 64 word" where
  "ovf_amd64 x = 0x8000000000000000"

text \<open>\<^verbatim>\<open>strconv.FormatInt(i, 10)\<close>.\<close>

definition digit :: "nat \<Rightarrow> char" where
  "digit d = ''0123456789'' ! d"

fun digits :: "nat \<Rightarrow> string" where
  "digits n = (if n < 10 then [digit n] else digits (n div 10) @ [digit (n mod 10)])"

declare digits.simps [simp del]

definition FormatInt :: "int \<Rightarrow> string" where
  "FormatInt i = (if i < 0 then ''-'' @ digits (nat (- i)) else digits (nat i))"

text \<open>
  \<^verbatim>\<open>strconv.FormatFloat(x, 'f', prec, 64)\<close>: the exact value rounded to \<open>prec\<close>
  decimals, ties to even; a minus sign when the sign bit is set; a decimal point only
  when \<open>prec\<close> is positive.
\<close>

definition round_half_even :: "rat \<Rightarrow> nat" where
  "round_half_even q =
    (let n = nat \<lfloor>q\<rfloor>; r = q - of_nat n
     in if r < 1 / 2 then n else if 1 / 2 < r then n + 1 else if even n then n else n + 1)"

fun fraction_digits :: "nat \<Rightarrow> nat \<Rightarrow> string" where
  "fraction_digits 0 m = []"
| "fraction_digits (Suc p) m = fraction_digits p (m div 10) @ [digit (m mod 10)]"

definition FormatFloat_f :: "float64 \<Rightarrow> nat \<Rightarrow> string" where
  "FormatFloat_f x prec =
    (case x of
       NaN \<Rightarrow> ''NaN''
     | PosInf \<Rightarrow> ''+Inf''
     | NegInf \<Rightarrow> ''-Inf''
     | _ \<Rightarrow>
        (let n = round_half_even (magnitude x * 10 ^ prec)
         in (if signbit x then ''-'' else []) @ digits (n div 10 ^ prec) @
            (if 0 < prec then ''.'' @ fraction_digits prec (n mod 10 ^ prec) else [])))"

definition is_digit :: "char \<Rightarrow> bool" where
  "is_digit c \<longleftrightarrow> (48::nat) \<le> of_char c \<and> of_char c \<le> (57::nat)"

text \<open>A string that reads as an integer: decimal digits, with a minus sign before them or not.\<close>

definition integer_string :: "string \<Rightarrow> bool" where
  "integer_string s =
    (case s of
       [] \<Rightarrow> False
     | c # cs \<Rightarrow> if c = CHR ''-'' then cs \<noteq> [] \<and> list_all is_digit cs else list_all is_digit s)"

text \<open>
  For stating what the conversion computes: the number a \<^verbatim>\<open>float64\<close> stands for, and
  truncation toward zero.
\<close>

definition value_of :: "float64 \<Rightarrow> rat" where
  "value_of x = (case x of Finite q \<Rightarrow> q | _ \<Rightarrow> 0)"

definition toward_zero :: "rat \<Rightarrow> int" where
  "toward_zero q = (if 0 \<le> q then \<lfloor>q\<rfloor> else \<lceil>q\<rceil>)"

section \<open>The orchestrator\<close>

text \<open>
  The types of the client library that \<^verbatim>\<open>Run\<close> reads, with the fields it reads:
  \<^verbatim>\<open>Coordinates\<close>, and \<^verbatim>\<open>CurrentWeatherData\<close> with its parts \<^verbatim>\<open>Main\<close> (here
  \<open>MainPart\<close>), \<^verbatim>\<open>Weather\<close>, \<^verbatim>\<open>Sys\<close> and \<^verbatim>\<open>Wind\<close>. The fields \<^verbatim>\<open>ID\<close> and \<^verbatim>\<open>Icon\<close> of
  a \<^verbatim>\<open>Weather\<close> entry are \<open>WeatherID\<close> and \<open>WeatherIcon\<close> here. Humidity, sunrise and sunset are Go
  \<^verbatim>\<open>int\<close>s, whose conversion to \<^verbatim>\<open>int64\<close> keeps the value.
\<close>

record Coordinates =
  Longitude :: float64
  Latitude :: float64

record MainData =
  Temp :: float64
  FeelsLike :: float64
  Pressure :: float64
  Humidity :: int

record WeatherEntry =
  WeatherID :: int
  WeatherIcon :: string

record SysData =
  Sunrise :: int
  Sunset :: int

record WindData =
  Speed :: float64

record CurrentWeatherData =
  Unit :: string
  Lang :: string
  Key :: string
  Sys :: SysData
  Weather :: "WeatherEntry list"
  MainPart :: MainData
  Wind :: WindData

record result =
  Text :: string
  Tooltip :: string
  Class :: string

text \<open>
  What \<^verbatim>\<open>Run\<close> calls outside the repository, as parameters. An error is the text of
  the Go error value.
  \<^item> \<open>ParseFloat\<close>: \<^verbatim>\<open>strconv.ParseFloat(s, 64)\<close>;
  \<^item> \<open>NewCurrent\<close>: \<^verbatim>\<open>openweathermap.NewCurrent(unit, lang, key)\<close>;
  \<^item> \<open>CurrentByCoordinates\<close>: the method of the request that queries the provider; in Go
    it fills the request in place, here it returns the filled request;
  \<^item> \<open>FormatTime\<close>: \<^verbatim>\<open>time.Unix(sec, 0).Format(timefmt)\<close>, which depends on the local
    time zone of the process;
  \<^item> \<open>TitleGerman\<close>: \<^verbatim>\<open>cases.Title(language.German).String\<close>;
  \<^item> \<open>Marshal\<close>: \<^verbatim>\<open>json.Marshal\<close>;
  \<^item> \<open>Conditions\<close>: the condition tables of the library;
  \<^item> \<open>Overflow\<close>: the result of a conversion to \<^verbatim>\<open>int64\<close> that does not fit;
  \<^item> \<open>StdoutWrite\<close>: \<^verbatim>\<open>os.Stdout.Write(b)\<close>, which returns the number of bytes it wrote
    and an error when that is less than the length of \<open>b\<close>;
  \<^item> \<open>ParseFlags\<close>: what the command-line framework (cobra) makes of the command line:
    a flag error, a request for help (\<^verbatim>\<open>--help\<close>, \<^verbatim>\<open>-h\<close>), or the value of the
    \<^verbatim>\<open>--config\<close> flag together with the positional arguments;
  \<^item> \<open>HelpText\<close>: the help text that cobra renders for the command;
  \<^item> \<open>UserHomeDir\<close>: \<^verbatim>\<open>os.UserHomeDir()\<close>.
\<close>

datatype parsed = FlagError string | HelpRequested | Arguments string "string list"

record env =
  ParseFloat :: "string \<Rightarrow> string + float64"
  NewCurrent :: "string \<Rightarrow> string \<Rightarrow> string \<Rightarrow> string + CurrentWeatherData"
  CurrentByCoordinates :: "CurrentWeatherData \<Rightarrow> Coordinates \<Rightarrow> string + CurrentWeatherData"
  FormatTime :: "int \<Rightarrow> string"
  TitleGerman :: "string \<Rightarrow> string"
  Marshal :: "result \<Rightarrow> string + string"
  Conditions :: ConditionTables
  Overflow :: "float64 \<Rightarrow> 64 word"
  StdoutWrite :: "string \<Rightarrow> nat \<times> string option"
  ParseFlags :: "string list \<Rightarrow> parsed"
  HelpText :: string
  UserHomeDir :: "string + string"

text \<open>
  What a run leaves behind: the serialized output records it handed to
  \<^verbatim>\<open>os.Stdout.Write\<close>, the bytes that reached standard output, the messages of
  \<^verbatim>\<open>log.Fatalf\<close> (on the error stream), the calls made to the provider client, and how
  the process ended. \<^verbatim>\<open>log.Fatalf\<close> ends the process with \<^verbatim>\<open>os.Exit(1)\<close>; a run-time
  panic that nothing recovers ends it with exit code 2; when \<^verbatim>\<open>Run\<close> returns, the
  process ends with exit code 0.
\<close>

datatype call =
  CallNewCurrent string string string
  | CallCurrentByCoordinates CurrentWeatherData Coordinates

datatype status = Returned | Exit nat | Panic string

record outcome =
  records :: "string list"
  stdout :: string
  logged :: "string list"
  calls :: "call list"
  status :: status


definition query_coordinates :: "outcome \<Rightarrow> Coordinates list" where
  "query_coordinates out =
    concat (map (\<lambda>c. case c of CallCurrentByCoordinates rq co \<Rightarrow> [co] | _ \<Rightarrow> []) (calls out))"

definition Fatalf :: "call list \<Rightarrow> string \<Rightarrow> outcome" where
  "Fatalf cs msg = \<lparr>records = [], stdout = [], logged = [msg], calls = cs, status = Exit 1\<rparr>"

text \<open>
  Lines 110 to 133 of \<^verbatim>\<open>Run\<close>: the record \<^verbatim>\<open>data\<close>, given the filled request and its
  first weather entry \<open>w\<close> (\<^verbatim>\<open>request.Weather[0]\<close>).
\<close>

definition data_of :: "env \<Rightarrow> CurrentWeatherData \<Rightarrow> WeatherEntry \<Rightarrow> result" where
  "data_of E request w =
    (let temp = Temp (MainPart request);
         icon = icons_at (WeatherIcon w);
         desc = description (Conditions E) (WeatherID w);
         feelsLike = FeelsLike (MainPart request);
         humidity = Humidity (MainPart request);
         pressure = Pressure (MainPart request);
         sunrise = FormatTime E (Sunrise (Sys request));
         sunset = FormatTime E (Sunset (Sys request));
         windSpeed = Speed (Wind request)
     in \<lparr>Text = text_str icon (FormatFloat_f temp 1),
         Tooltip = tooltip (TitleGerman E)
           desc
           (FormatInt (int64 (Overflow E) feelsLike))
           (FormatInt (int64 (Overflow E) pressure))
           (FormatInt humidity)
           sunrise
           sunset
           (FormatFloat_f windSpeed 0),
         Class = ''weather''\<rparr>)"

text \<open>
  The function \<^verbatim>\<open>Run\<close> of \<^verbatim>\<open>rootCmd\<close>. \<^verbatim>\<open>request.Weather[0]\<close> on an empty slice is a
  run-time panic. The source drops both results of \<^verbatim>\<open>os.Stdout.Write(b)\<close>: whatever the
  call wrote is on standard output, and \<^verbatim>\<open>Run\<close> returns.
\<close>

definition Run :: "env \<Rightarrow> string list \<Rightarrow> outcome" where
  "Run E args =
    (case ParseFloat E (args ! 0) of
       Inl err \<Rightarrow> Fatalf [] (''parse longitude '' @ args ! 0 @ '': '' @ err)
     | Inr long \<Rightarrow>
    (case ParseFloat E (args ! 1) of
       Inl err \<Rightarrow> Fatalf [] (''parse latitude '' @ args ! 1 @ '': '' @ err)
     | Inr lat \<Rightarrow>
    (case NewCurrent E ''C'' ''en'' (args ! 2) of
       Inl err \<Rightarrow> Fatalf [CallNewCurrent ''C'' ''en'' (args ! 2)] (''get weatherinfo: '' @ err)
     | Inr request \<Rightarrow>
    (let coords = \<lparr>Longitude = long, Latitude = lat\<rparr>;
         cs = [CallNewCurrent ''C'' ''en'' (args ! 2), CallCurrentByCoordinates request coords]
     in case CurrentByCoordinates E request coords of
       Inl err \<Rightarrow> Fatalf cs (''get weather: '' @ err)
     | Inr filled \<Rightarrow>
    (case Weather filled of
       [] \<Rightarrow> \<lparr>records = [], stdout = [], logged = [], calls = cs,
               status = Panic ''runtime error: index out of range [0] with length 0''\<rparr>
     | w # ws \<Rightarrow>
    (case Marshal E (data_of E filled w) of
       Inl err \<Rightarrow> Fatalf cs (''encode json: '' @ err)
     | Inr b \<Rightarrow>
    (case StdoutWrite E b of
       (n, err) \<Rightarrow>
         \<lparr>records = [b], stdout = take n b, logged = [], calls = cs, status = Returned\<rparr>)))))))"

text \<open>The usage line of the command, \<^verbatim>\<open>rootCmd.Use\<close>.\<close>

definition Use :: string where
  "Use = ''waybar-openweathermap [lat] [long] [key]''"

text \<open>
  \<^verbatim>\<open>initConfig\<close>, which cobra runs before it validates the arguments: without a
  \<^verbatim>\<open>--config\<close> file it asks for the home directory, and \<^verbatim>\<open>cobra.CheckErr\<close> ends the
  process with exit code 1 when there is none (\<open>Some\<close> the error). Reading the
  configuration writes to the error stream only.
\<close>

definition initConfig :: "env \<Rightarrow> string \<Rightarrow> string option" where
  "initConfig E cfgFile =
    (if cfgFile \<noteq> [] then None
     else case UserHomeDir E of Inl err \<Rightarrow> Some err | Inr home \<Rightarrow> None)"


subsection \<open>An instance of the environment, for evaluation\<close>

text \<open>
  The parser knows three inputs (\<^verbatim>\<open>strconv.ParseFloat\<close> accepts the word \<^verbatim>\<open>inf\<close>, as it
  accepts \<^verbatim>\<open>infinity\<close>, \<^verbatim>\<open>nan\<close> and hexadecimal floats); the client accepts a key of 32
  bytes, as the library does, and answers every query with the response it is given;
  times and JSON are rendered in a simple way that is enough for the strings used below.
  Every write to standard output is complete, unless the disk is full. The flag parser
  knows the command line that asks for help, takes any other argument that starts with a
  dash for an unknown flag, and otherwise passes the arguments on.
\<close>

definition sample_ParseFloat :: "string \<Rightarrow> string + float64" where
  "sample_ParseFloat s =
    (if s = ''4.5'' then Inr (Finite (9 / 2))
     else if s = ''52.25'' then Inr (Finite (209 / 4))
     else if s = ''inf'' then Inr PosInf
     else Inl (''strconv.ParseFloat: parsing '' @ [CHR 0x22] @ s @ [CHR 0x22] @
       '': invalid syntax''))"

definition empty_request :: CurrentWeatherData where
  "empty_request =
    \<lparr>Unit = [], Lang = [], Key = [],
     Sys = \<lparr>Sunrise = 0, Sunset = 0\<rparr>,
     Weather = [],
     MainPart = \<lparr>Temp = Finite 0, FeelsLike = Finite 0, Pressure = Finite 0, Humidity = 0\<rparr>,
     Wind = \<lparr>Speed = Finite 0\<rparr>\<rparr>"

definition sample_NewCurrent :: "string \<Rightarrow> string \<Rightarrow> string \<Rightarrow> string + CurrentWeatherData" where
  "sample_NewCurrent unit lang key =
    (if length key = 32
     then Inr (empty_request\<lparr>Unit := ''metric'', Lang := ''EN'', Key := key\<rparr>)
     else Inl ''invalid key'')"

definition sample_key :: string where
  "sample_key = ''0123456789abcdef0123456789abcdef''"

definition sample_FormatTime :: "int \<Rightarrow> string" where
  "sample_FormatTime sec =
    (let m = nat ((sec div 60) mod 1440)
     in digits (m div 600) @ digits ((m div 60) mod 10) @ '':'' @
        digits ((m mod 60) div 10) @ digits (m mod 10) @ '' UTC'')"

fun escape :: "string \<Rightarrow> string" where
  "escape [] = []"
| "escape (c # cs) =
    (if c = CHR 0x0A then CHR 0x5C # CHR ''n'' # escape cs
     else if c = CHR 0x22 \<or> c = CHR 0x5C then CHR 0x5C # c # escape cs
     else c # escape cs)"

definition sample_json :: "result \<Rightarrow> string" where
  "sample_json r =
    [CHR ''{'', CHR 0x22] @ ''text'' @ [CHR 0x22, CHR '':'', CHR 0x22] @ escape (Text r) @
    [CHR 0x22, CHR '','', CHR 0x22] @ ''tooltip'' @ [CHR 0x22, CHR '':'', CHR 0x22] @
    escape (Tooltip r) @
    [CHR 0x22, CHR '','', CHR 0x22] @ ''class'' @ [CHR 0x22, CHR '':'', CHR 0x22] @
    escape (Class r) @ [CHR 0x22, CHR ''}'']"

definition sample_Marshal :: "result \<Rightarrow> string + string" where
  "sample_Marshal r = Inr (sample_json r)"

definition complete_write :: "string \<Rightarrow> nat \<times> string option" where
  "complete_write b = (length b, None)"


definition is_flag :: "string \<Rightarrow> bool" where
  "is_flag a = (case a of c # d # rest \<Rightarrow> c = CHR ''-'' | _ \<Rightarrow> False)"

definition sample_ParseFlags :: "string list \<Rightarrow> parsed" where
  "sample_ParseFlags argv =
    (if argv = [''--help''] then HelpRequested
     else if list_ex is_flag argv then FlagError ''unknown flag''
     else Arguments [] argv)"

definition sample_env :: "(string + CurrentWeatherData) \<Rightarrow> env" where
  "sample_env answer =
    \<lparr>ParseFloat = sample_ParseFloat,
     NewCurrent = sample_NewCurrent,
     CurrentByCoordinates = (\<lambda>request coords.
       case answer of
         Inl err \<Rightarrow> Inl err
       | Inr r \<Rightarrow> Inr (r\<lparr>Unit := Unit request, Lang := Lang request, Key := Key request\<rparr>)),
     FormatTime = sample_FormatTime,
     TitleGerman = title_ascii,
     Marshal = sample_Marshal,
     Conditions = sample_tables,
     Overflow = ovf_amd64,
     StdoutWrite = complete_write,
     ParseFlags = sample_ParseFlags,
     HelpText = ''Usage: '' @ Use,
     UserHomeDir = Inr ''/root''\<rparr>"

text \<open>
  For stating what a decimal number is: an optional sign, digits with at most one decimal
  point among them, and an optional exponent.
\<close>

definition strip_sign :: "string \<Rightarrow> string" where
  "strip_sign s =
    (case s of [] \<Rightarrow> [] | c # cs \<Rightarrow> if c = CHR ''+'' \<or> c = CHR ''-'' then cs else s)"

definition decimal_number :: "string \<Rightarrow> bool" where
  "decimal_number s =
    (let body = strip_sign s;
         mantissa = takeWhile (\<lambda>c. c \<noteq> CHR ''e'' \<and> c \<noteq> CHR ''E'') body;
         exponent = dropWhile (\<lambda>c. c \<noteq> CHR ''e'' \<and> c \<noteq> CHR ''E'') body;
         whole = takeWhile (\<lambda>c. c \<noteq> CHR ''.'') mantissa;
         fraction = dropWhile (\<lambda>c. c \<noteq> CHR ''.'') mantissa
     in list_all is_digit whole
        \<and> (fraction = [] \<or> list_all is_digit (tl fraction))
        \<and> (0 < length whole \<or> 1 < length fraction)
        \<and> (exponent = [] \<or>
            (0 < length (strip_sign (tl exponent)) \<and> list_all is_digit (strip_sign (tl exponent)))))"

text \<open>Three answers of the provider: clear sky, an icon code outside the table, no entry.\<close>

definition clear_sky :: CurrentWeatherData where
  "clear_sky =
    empty_request
      \<lparr>Sys := \<lparr>Sunrise = 1700000000, Sunset = 1700030000\<rparr>,
       Weather := [\<lparr>WeatherID = 800, WeatherIcon = ''01d''\<rparr>],
       MainPart := \<lparr>Temp = Finite (85 / 4), FeelsLike = Finite (83 / 4),
                    Pressure = Finite 1013, Humidity = 55\<rparr>,
       Wind := \<lparr>Speed = Finite (7 / 2)\<rparr>\<rparr>"

definition unknown_icon :: CurrentWeatherData where
  "unknown_icon = clear_sky\<lparr>Weather := [\<lparr>WeatherID = 800, WeatherIcon = ''99x''\<rparr>]\<rparr>"

definition no_entries :: CurrentWeatherData where
  "no_entries = clear_sky\<lparr>Weather := []\<rparr>"

text \<open>A response whose feels-like temperature is 2 to the power 63.\<close>

definition scorching :: CurrentWeatherData where
  "scorching =
    clear_sky\<lparr>MainPart := \<lparr>Temp = Finite (85 / 4), FeelsLike = Finite 9223372036854775808,
                            Pressure = Finite 1013, Humidity = 55\<rparr>\<rparr>"

section \<open>Properties of the lookups and of the text line\<close>

lemma find_app:
  "find P (xs @ ys) = (case find P xs of None \<Rightarrow> find P ys | Some x \<Rightarrow> Some x)"
  by (induction xs) simp_all

lemma scan_group_find:
  "scan_group g i = map_option Meaning (find (\<lambda>c. ID c = i) g)"
  by (induction g) simp_all

lemma scan_groups_find:
  "scan_groups gs i =
    (case find (\<lambda>c. ID c = i) (concat gs) of None \<Rightarrow> [] | Some c \<Rightarrow> Meaning c)"
proof (induction gs)
  case Nil
  show ?case by simp
next
  case (Cons g gs)
  show ?case
  proof (cases "find (\<lambda>c. ID c = i) g")
    case None
    then show ?thesis
      using Cons.IH by (simp add: scan_group_find find_app)
  next
    case (Some c)
    then show ?thesis
      by (simp add: scan_group_find find_app)
  qed
qed

lemma find_absent: "i \<notin> ID ` set xs \<Longrightarrow> find (\<lambda>c. ID c = i) xs = None"
  by (induction xs) auto

text \<open>
  C3. For every numeric condition ID, \<^verbatim>\<open>description\<close> searches the concatenation of the
  condition groups in the order thunderstorm, drizzle, rain, snow, atmosphere, cloud,
  additional, and returns the description of the first entry whose ID matches; for an
  ID that is in none of the groups it returns the empty string. The function is total:
  it has no error result.
\<close>

theorem description_first_match:
  "description T i =
     (case find (\<lambda>c. ID c = i)
        (ThunderstormConditions T @ DrizzleConditions T @ RainConditions T @
         SnowConditions T @ AtmosphereConditions T @ CloudConditions T @
         AdditionalConditions T)
      of None \<Rightarrow> [] | Some c \<Rightarrow> Meaning c)
   \<and> (i \<notin> ID ` (set (ThunderstormConditions T) \<union> set (DrizzleConditions T) \<union>
          set (RainConditions T) \<union> set (SnowConditions T) \<union>
          set (AtmosphereConditions T) \<union> set (CloudConditions T) \<union>
          set (AdditionalConditions T))
        \<longrightarrow> description T i = [])"
proof -
  let ?all = "ThunderstormConditions T @ DrizzleConditions T @ RainConditions T @
    SnowConditions T @ AtmosphereConditions T @ CloudConditions T @ AdditionalConditions T"
  have cat: "concat (groups T) = ?all"
    by (simp add: groups_def)
  have first: "description T i =
      (case find (\<lambda>c. ID c = i) ?all of None \<Rightarrow> [] | Some c \<Rightarrow> Meaning c)"
    unfolding description_def scan_groups_find cat ..
  have absent: "description T i = []" if "i \<notin> ID ` set ?all"
    using find_absent [OF that] by (simp add: first)
  have sets: "set ?all = set (ThunderstormConditions T) \<union> set (DrizzleConditions T) \<union>
      set (RainConditions T) \<union> set (SnowConditions T) \<union> set (AtmosphereConditions T) \<union>
      set (CloudConditions T) \<union> set (AdditionalConditions T)"
    by auto
  show ?thesis
    using first absent unfolding sets by blast
qed

text \<open>
  Evaluation on the sample tables: 800 is in the cloud group and again in the additional
  group, and the cloud entry wins; 999 is in no group.
\<close>

theorem description_first_match_witness:
  "description sample_tables 800 = ''clear sky''
   \<and> 999 \<notin> ID ` (set (ThunderstormConditions sample_tables) \<union>
          set (DrizzleConditions sample_tables) \<union> set (RainConditions sample_tables) \<union>
          set (SnowConditions sample_tables) \<union> set (AtmosphereConditions sample_tables) \<union>
          set (CloudConditions sample_tables) \<union> set (AdditionalConditions sample_tables))
   \<and> description sample_tables 999 = []"
proof -
  have absent: "999 \<notin> ID ` (set (ThunderstormConditions sample_tables) \<union>
          set (DrizzleConditions sample_tables) \<union> set (RainConditions sample_tables) \<union>
          set (SnowConditions sample_tables) \<union> set (AtmosphereConditions sample_tables) \<union>
          set (CloudConditions sample_tables) \<union> set (AdditionalConditions sample_tables))"
    by (simp add: sample_tables_def)
  have "description sample_tables 800 = ''clear sky''"
    using description_first_match [of sample_tables 800] by (simp add: sample_tables_def)
  moreover have "description sample_tables 999 = []"
    using description_first_match [of sample_tables 999] absent by blast
  ultimately show ?thesis
    using absent by blast
qed

text \<open>
  C10. For every key of the icon table, the key is three bytes long, and the day variant
  and the night variant of its two-digit prefix are both in the table and map to the same
  pictogram. In particular the clear-night code 01n maps to the sun pictogram
  (U+2600 U+FE0F) of the clear-day code 01d.
\<close>

theorem icons_day_night_identical:
  "(\<forall>k \<in> fst ` set icons. length k = 3 \<and>
      (\<exists>v. map_of icons (take 2 k @ ''d'') = Some v \<and> map_of icons (take 2 k @ ''n'') = Some v))
   \<and> icons_at ''01n'' = [CHR 0xE2, CHR 0x98, CHR 0x80, CHR 0xEF, CHR 0xB8, CHR 0x8F]
   \<and> icons_at ''01d'' = icons_at ''01n''"
  by (simp add: icons_def icons_at_def)

theorem icons_day_night_identical_witness:
  "''13n'' \<in> fst ` set icons \<and>
   (\<exists>v. map_of icons ''13d'' = Some v \<and> map_of icons ''13n'' = Some v)"
proof -
  have mem: "''13n'' \<in> fst ` set icons"
    by (simp add: icons_def)
  from icons_day_night_identical
  have "\<forall>k \<in> fst ` set icons.
      (\<exists>v. map_of icons (take 2 k @ ''d'') = Some v \<and> map_of icons (take 2 k @ ''n'') = Some v)"
    by blast
  from bspec [OF this mem] have
    "\<exists>v. map_of icons (take 2 ''13n'' @ ''d'') = Some v \<and> map_of icons (take 2 ''13n'' @ ''n'') = Some v" .
  then have "\<exists>v. map_of icons ''13d'' = Some v \<and> map_of icons ''13n'' = Some v"
    by simp
  with mem show ?thesis ..
qed

section \<open>Properties of the orchestrator\<close>

lemma Run_parse_longitude:
  "ParseFloat E (args ! 0) = Inl err \<Longrightarrow>
   Run E args = Fatalf [] (''parse longitude '' @ args ! 0 @ '': '' @ err)"
  by (simp add: Run_def)

lemma Run_parse_latitude:
  "ParseFloat E (args ! 0) = Inr a \<Longrightarrow> ParseFloat E (args ! 1) = Inl err \<Longrightarrow>
   Run E args = Fatalf [] (''parse latitude '' @ args ! 1 @ '': '' @ err)"
  by (simp add: Run_def)

lemma Run_filled:
  assumes "ParseFloat E (args ! 0) = Inr a"
    and "ParseFloat E (args ! 1) = Inr b"
    and "NewCurrent E ''C'' ''en'' (args ! 2) = Inr rq"
    and "CurrentByCoordinates E rq \<lparr>Longitude = a, Latitude = b\<rparr> = Inr filled"
  shows "Run E args =
    (case Weather filled of
       [] \<Rightarrow> \<lparr>records = [], stdout = [], logged = [],
               calls = [CallNewCurrent ''C'' ''en'' (args ! 2),
                        CallCurrentByCoordinates rq \<lparr>Longitude = a, Latitude = b\<rparr>],
               status = Panic ''runtime error: index out of range [0] with length 0''\<rparr>
     | w # ws \<Rightarrow>
        (case Marshal E (data_of E filled w) of
           Inl err \<Rightarrow>
             Fatalf [CallNewCurrent ''C'' ''en'' (args ! 2),
                     CallCurrentByCoordinates rq \<lparr>Longitude = a, Latitude = b\<rparr>]
               (''encode json: '' @ err)
         | Inr out \<Rightarrow>
             \<lparr>records = [out], stdout = take (fst (StdoutWrite E out)) out, logged = [],
              calls = [CallNewCurrent ''C'' ''en'' (args ! 2),
                       CallCurrentByCoordinates rq \<lparr>Longitude = a, Latitude = b\<rparr>],
              status = Returned\<rparr>))"
  using assms by (simp add: Run_def Let_def split: list.splits sum.splits prod.splits)

lemma Run_calls:
  assumes "ParseFloat E (args ! 0) = Inr a"
    and "ParseFloat E (args ! 1) = Inr b"
    and "NewCurrent E ''C'' ''en'' (args ! 2) = Inr rq"
  shows "calls (Run E args) =
     [CallNewCurrent ''C'' ''en'' (args ! 2),
      CallCurrentByCoordinates rq \<lparr>Longitude = a, Latitude = b\<rparr>]"
  using assms
  by (simp add: Run_def Let_def Fatalf_def split: sum.splits list.splits prod.splits)

lemma Text_data_of:
  "Text (data_of E rq w) =
     text_str (icons_at (WeatherIcon w)) (FormatFloat_f (Temp (MainPart rq)) 1)"
  by (simp add: data_of_def)


lemmas sample_defs =
  sample_env_def sample_ParseFloat_def sample_NewCurrent_def sample_key_def
  sample_Marshal_def empty_request_def clear_sky_def unknown_icon_def no_entries_def
  complete_write_def sample_ParseFlags_def is_flag_def initConfig_def

text \<open>
  C1. The claim: the value parsed from the first positional argument is sent to the
  provider in the latitude field, and the value parsed from the second in the longitude
  field. That is what the usage line of the command, \<^verbatim>\<open>[lat] [long] [key]\<close>, documents.
  \<^verbatim>\<open>Run\<close> does the opposite: it parses the first argument as the longitude and the second
  as the latitude, and the one query carries the value of the first argument in its
  \<^verbatim>\<open>Longitude\<close> field and the value of the second in its \<^verbatim>\<open>Latitude\<close> field. A caller
  who follows the usage line has the two axes exchanged. This theorem states what \<^verbatim>\<open>Run\<close>
  transmits.
\<close>

theorem coordinates_in_argument_order:
  assumes "length args = 3"
    and "ParseFloat E (args ! 0) = Inr a"
    and "ParseFloat E (args ! 1) = Inr b"
    and "NewCurrent E ''C'' ''en'' (args ! 2) = Inr rq"
  shows "query_coordinates (Run E args) = [\<lparr>Longitude = a, Latitude = b\<rparr>]"
proof -
  have "calls (Run E args) =
     [CallNewCurrent ''C'' ''en'' (args ! 2),
      CallCurrentByCoordinates rq \<lparr>Longitude = a, Latitude = b\<rparr>]"
    using assms(2-4) by (rule Run_calls)
  then show ?thesis
    by (simp add: query_coordinates_def)
qed

text \<open>
  Evaluation on the command line that the usage line asks for, latitude 52.25 first and
  longitude 4.5 second: the latitude is sent as the longitude, and the latitude field of
  the query does not hold the value of the first argument.
\<close>

theorem coordinates_in_argument_order_witness:
  "Use = ''waybar-openweathermap [lat] [long] [key]''
   \<and> length [''52.25'', ''4.5'', sample_key] = 3
   \<and> ParseFloat (sample_env (Inr clear_sky)) ''52.25'' = Inr (Finite (209 / 4))
   \<and> ParseFloat (sample_env (Inr clear_sky)) ''4.5'' = Inr (Finite (9 / 2))
   \<and> NewCurrent (sample_env (Inr clear_sky)) ''C'' ''en'' sample_key =
       Inr (empty_request\<lparr>Unit := ''metric'', Lang := ''EN'', Key := sample_key\<rparr>)
   \<and> query_coordinates (Run (sample_env (Inr clear_sky)) [''52.25'', ''4.5'', sample_key]) =
       [\<lparr>Longitude = Finite (209 / 4), Latitude = Finite (9 / 2)\<rparr>]
   \<and> map Latitude
        (query_coordinates (Run (sample_env (Inr clear_sky)) [''52.25'', ''4.5'', sample_key]))
       \<noteq> [Finite (209 / 4)]"
proof -
  let ?E = "sample_env (Inr clear_sky)"
  let ?args = "[''52.25'', ''4.5'', sample_key]"
  have len: "length ?args = 3"
    by simp
  have first: "ParseFloat ?E (?args ! 0) = Inr (Finite (209 / 4))"
    by (simp add: sample_env_def sample_ParseFloat_def)
  have second: "ParseFloat ?E (?args ! 1) = Inr (Finite (9 / 2))"
    by (simp add: sample_env_def sample_ParseFloat_def)
  have new: "NewCurrent ?E ''C'' ''en'' (?args ! 2) =
      Inr (empty_request\<lparr>Unit := ''metric'', Lang := ''EN'', Key := sample_key\<rparr>)"
    by (simp add: sample_env_def sample_NewCurrent_def sample_key_def)
  from coordinates_in_argument_order [OF len first second new] len first second new
  show ?thesis
    by (simp add: Use_def)
qed

text \<open>
  C2. The claim asks that a response without weather entries ends the run with a named
  fatal error from an explicit check. \<^verbatim>\<open>Run\<close> has no such check: it indexes
  \<^verbatim>\<open>request.Weather[0]\<close>, so the run ends in a run-time panic (index out of range) and
  \<^verbatim>\<open>log.Fatalf\<close> is never called. This theorem evaluates the code on such a response.
\<close>

theorem empty_weather_panics:
  assumes "length args = 3"
    and "ParseFloat E (args ! 0) = Inr a"
    and "ParseFloat E (args ! 1) = Inr b"
    and "NewCurrent E ''C'' ''en'' (args ! 2) = Inr rq"
    and "CurrentByCoordinates E rq \<lparr>Longitude = a, Latitude = b\<rparr> = Inr filled"
    and "Weather filled = []"
  shows "status (Run E args) = Panic ''runtime error: index out of range [0] with length 0''
    \<and> logged (Run E args) = [] \<and> stdout (Run E args) = []"
proof -
  note Run_filled [OF assms(2-5)]
  with assms(6) show ?thesis
    by simp
qed

theorem empty_weather_panics_witness:
  "Weather no_entries = []
   \<and> status (Run (sample_env (Inr no_entries)) [''4.5'', ''52.25'', sample_key]) =
       Panic ''runtime error: index out of range [0] with length 0''
   \<and> logged (Run (sample_env (Inr no_entries)) [''4.5'', ''52.25'', sample_key]) = []
   \<and> stdout (Run (sample_env (Inr no_entries)) [''4.5'', ''52.25'', sample_key]) = []"
proof -
  let ?E = "sample_env (Inr no_entries)"
  let ?args = "[''4.5'', ''52.25'', sample_key]"
  let ?rq = "empty_request\<lparr>Unit := ''metric'', Lang := ''EN'', Key := sample_key\<rparr>"
  let ?filled = "no_entries\<lparr>Unit := ''metric'', Lang := ''EN'', Key := sample_key\<rparr>"
  have len: "length ?args = 3"
    by simp
  have long: "ParseFloat ?E (?args ! 0) = Inr (Finite (9 / 2))"
    by (simp add: sample_env_def sample_ParseFloat_def)
  have lat: "ParseFloat ?E (?args ! 1) = Inr (Finite (209 / 4))"
    by (simp add: sample_env_def sample_ParseFloat_def)
  have new: "NewCurrent ?E ''C'' ''en'' (?args ! 2) = Inr ?rq"
    by (simp add: sample_env_def sample_NewCurrent_def sample_key_def)
  have query: "CurrentByCoordinates ?E ?rq
      \<lparr>Longitude = Finite (9 / 2), Latitude = Finite (209 / 4)\<rparr> = Inr ?filled"
    by (simp add: sample_env_def empty_request_def)
  have none: "Weather no_entries = []"
    by (simp add: no_entries_def)
  then have none': "Weather ?filled = []"
    by simp
  from empty_weather_panics [OF len long lat new query none'] none
  show ?thesis
    by simp
qed




text \<open>
  C7, as the claim states it: an argument that is not a decimal number ends the run with
  a parse error before any call to the provider. The word \<^verbatim>\<open>inf\<close> is not a decimal
  number, but \<^verbatim>\<open>strconv.ParseFloat\<close> accepts it (as it accepts \<^verbatim>\<open>infinity\<close>, \<^verbatim>\<open>nan\<close> and
  hexadecimal floats): the run goes on, queries the provider with an infinite longitude,
  and returns.
\<close>

theorem parse_failure_counterexample:
  "\<not> decimal_number ''inf''
   \<and> ParseFloat (sample_env (Inr clear_sky)) ''inf'' = Inr PosInf
   \<and> query_coordinates (Run (sample_env (Inr clear_sky)) [''inf'', ''52.25'', sample_key]) =
       [\<lparr>Longitude = PosInf, Latitude = Finite (209 / 4)\<rparr>]
   \<and> status (Run (sample_env (Inr clear_sky)) [''inf'', ''52.25'', sample_key]) = Returned"
proof -
  have "\<not> decimal_number ''inf''"
    by (simp add: decimal_number_def strip_sign_def is_digit_def)
  moreover have "ParseFloat (sample_env (Inr clear_sky)) ''inf'' = Inr PosInf"
    by (simp add: sample_env_def sample_ParseFloat_def)
  moreover have
    "query_coordinates (Run (sample_env (Inr clear_sky)) [''inf'', ''52.25'', sample_key]) =
       [\<lparr>Longitude = PosInf, Latitude = Finite (209 / 4)\<rparr>]
     \<and> status (Run (sample_env (Inr clear_sky)) [''inf'', ''52.25'', sample_key]) = Returned"
    by (simp add: Run_def Let_def query_coordinates_def sample_defs)
  ultimately show ?thesis
    by blast
qed

text \<open>
  C7, amended: when \<^verbatim>\<open>strconv.ParseFloat\<close> rejects the first or the second positional
  argument, the run ends with \<^verbatim>\<open>log.Fatalf\<close> (one message that starts with "parse ",
  exit code 1), has written nothing to standard output and has made no call to the
  provider client: neither the query nor the creation of the client is reached.
\<close>

theorem parse_failure_before_any_call:
  assumes "length args = 3"
    and "(\<exists>e. ParseFloat E (args ! 0) = Inl e) \<or> (\<exists>e. ParseFloat E (args ! 1) = Inl e)"
  shows "calls (Run E args) = [] \<and> query_coordinates (Run E args) = []
    \<and> status (Run E args) = Exit 1 \<and> stdout (Run E args) = []
    \<and> (\<exists>rest. logged (Run E args) = [''parse '' @ rest])"
proof (cases "ParseFloat E (args ! 0)")
  case (Inl e)
  from Run_parse_longitude [OF Inl] show ?thesis
    by (simp add: Fatalf_def query_coordinates_def)
next
  case (Inr a)
  with assms(2) obtain e where "ParseFloat E (args ! 1) = Inl e"
    by auto
  from Run_parse_latitude [OF Inr this] show ?thesis
    by (simp add: Fatalf_def query_coordinates_def)
qed

theorem parse_failure_before_any_call_witness:
  "\<not> decimal_number ''north'' \<and> decimal_number ''4.5''
   \<and> ParseFloat (sample_env (Inr clear_sky)) ''north'' =
       Inl (''strconv.ParseFloat: parsing '' @ [CHR 0x22] @ ''north'' @ [CHR 0x22] @
         '': invalid syntax'')
   \<and> calls (Run (sample_env (Inr clear_sky)) [''4.5'', ''north'', sample_key]) = []
   \<and> status (Run (sample_env (Inr clear_sky)) [''4.5'', ''north'', sample_key]) = Exit 1
   \<and> calls (Run (sample_env (Inr clear_sky)) [''north'', ''52.25'', sample_key]) = []
   \<and> status (Run (sample_env (Inr clear_sky)) [''north'', ''52.25'', sample_key]) = Exit 1"
proof -
  let ?E = "sample_env (Inr clear_sky)"
  have words: "\<not> decimal_number ''north'' \<and> decimal_number ''4.5''"
    by (simp add: decimal_number_def strip_sign_def is_digit_def)
  have bad: "ParseFloat ?E ''north'' =
      Inl (''strconv.ParseFloat: parsing '' @ [CHR 0x22] @ ''north'' @ [CHR 0x22] @
        '': invalid syntax'')"
    by (simp add: sample_env_def sample_ParseFloat_def)
  have second: "(\<exists>e. ParseFloat ?E ([''4.5'', ''north'', sample_key] ! 0) = Inl e)
      \<or> (\<exists>e. ParseFloat ?E ([''4.5'', ''north'', sample_key] ! 1) = Inl e)"
    using bad by simp
  have first: "(\<exists>e. ParseFloat ?E ([''north'', ''52.25'', sample_key] ! 0) = Inl e)
      \<or> (\<exists>e. ParseFloat ?E ([''north'', ''52.25'', sample_key] ! 1) = Inl e)"
    using bad by simp
  have len2: "length [''4.5'', ''north'', sample_key] = 3"
    and len1: "length [''north'', ''52.25'', sample_key] = 3"
    by simp_all
  from parse_failure_before_any_call [OF len2 second]
    parse_failure_before_any_call [OF len1 first] bad words
  show ?thesis
    by blast
qed

text \<open>
  C8. The icon lookup returns the pictogram of a code that is in the table and the empty
  string for any other code. An unknown code does not fail the run: when every other
  stage succeeds, the run returns and hands its record to standard output, and the text
  line of that record has no icon.
\<close>

theorem unknown_icon_degrades:
  "(map_of icons k = Some v \<longrightarrow> icons_at k = v)
   \<and> (map_of icons k = None \<longrightarrow> icons_at k = [])
   \<and> (length args = 3 \<and> ParseFloat E (args ! 0) = Inr a \<and> ParseFloat E (args ! 1) = Inr b
        \<and> NewCurrent E ''C'' ''en'' (args ! 2) = Inr rq
        \<and> CurrentByCoordinates E rq \<lparr>Longitude = a, Latitude = b\<rparr> = Inr filled
        \<and> Weather filled = w # ws \<and> map_of icons (WeatherIcon w) = None
        \<and> Marshal E (data_of E filled w) = Inr out
      \<longrightarrow> status (Run E args) = Returned \<and> records (Run E args) = [out]
        \<and> stdout (Run E args) = take (fst (StdoutWrite E out)) out
        \<and> Text (data_of E filled w) = '' '' @ FormatFloat_f (Temp (MainPart filled)) 1 @ degC)"
proof (intro conjI impI)
  show "icons_at k = v" if "map_of icons k = Some v"
    using that by (simp add: icons_at_def)
  show "icons_at k = []" if "map_of icons k = None"
    using that by (simp add: icons_at_def)
next
  assume h: "length args = 3 \<and> ParseFloat E (args ! 0) = Inr a \<and> ParseFloat E (args ! 1) = Inr b
        \<and> NewCurrent E ''C'' ''en'' (args ! 2) = Inr rq
        \<and> CurrentByCoordinates E rq \<lparr>Longitude = a, Latitude = b\<rparr> = Inr filled
        \<and> Weather filled = w # ws \<and> map_of icons (WeatherIcon w) = None
        \<and> Marshal E (data_of E filled w) = Inr out"
  then have run: "Run E args =
      \<lparr>records = [out], stdout = take (fst (StdoutWrite E out)) out, logged = [],
       calls = [CallNewCurrent ''C'' ''en'' (args ! 2),
                CallCurrentByCoordinates rq \<lparr>Longitude = a, Latitude = b\<rparr>],
       status = Returned\<rparr>"
    using Run_filled [of E args a b rq filled] by simp
  show "status (Run E args) = Returned"
    by (simp add: run)
  show "records (Run E args) = [out]"
    by (simp add: run)
  show "stdout (Run E args) = take (fst (StdoutWrite E out)) out"
    by (simp add: run)
  from h have "icons_at (WeatherIcon w) = []"
    by (simp add: icons_at_def)
  then show "Text (data_of E filled w) = '' '' @ FormatFloat_f (Temp (MainPart filled)) 1 @ degC"
    by (simp add: Text_data_of text_str_def)
qed

theorem unknown_icon_degrades_witness:
  "map_of icons ''99x'' = None \<and> icons_at ''99x'' = []
   \<and> Weather unknown_icon = [\<lparr>WeatherID = 800, WeatherIcon = ''99x''\<rparr>]
   \<and> status (Run (sample_env (Inr unknown_icon)) [''4.5'', ''52.25'', sample_key]) = Returned
   \<and> Text (data_of (sample_env (Inr unknown_icon))
        (unknown_icon\<lparr>Unit := ''metric'', Lang := ''EN'', Key := sample_key\<rparr>)
        \<lparr>WeatherID = 800, WeatherIcon = ''99x''\<rparr>) = '' 21.2'' @ degC"
proof -
  let ?E = "sample_env (Inr unknown_icon)"
  let ?args = "[''4.5'', ''52.25'', sample_key]"
  let ?rq = "empty_request\<lparr>Unit := ''metric'', Lang := ''EN'', Key := sample_key\<rparr>"
  let ?filled = "unknown_icon\<lparr>Unit := ''metric'', Lang := ''EN'', Key := sample_key\<rparr>"
  let ?w = "\<lparr>WeatherID = 800, WeatherIcon = ''99x''\<rparr>"
  have len: "length ?args = 3"
    by simp
  have long: "ParseFloat ?E (?args ! 0) = Inr (Finite (9 / 2))"
    by (simp add: sample_env_def sample_ParseFloat_def)
  have lat: "ParseFloat ?E (?args ! 1) = Inr (Finite (209 / 4))"
    by (simp add: sample_env_def sample_ParseFloat_def)
  have new: "NewCurrent ?E ''C'' ''en'' (?args ! 2) = Inr ?rq"
    by (simp add: sample_env_def sample_NewCurrent_def sample_key_def)
  have query: "CurrentByCoordinates ?E ?rq
      \<lparr>Longitude = Finite (9 / 2), Latitude = Finite (209 / 4)\<rparr> = Inr ?filled"
    by (simp add: sample_env_def empty_request_def)
  have entries: "Weather unknown_icon = [?w]"
    by (simp add: unknown_icon_def)
  then have entries': "Weather ?filled = ?w # []"
    by simp
  have absent: "map_of icons (WeatherIcon ?w) = None"
    by (simp add: icons_def)
  have marshal: "Marshal ?E (data_of ?E ?filled ?w) = Inr (sample_json (data_of ?E ?filled ?w))"
    by (simp add: sample_env_def sample_Marshal_def)
  have temp: "FormatFloat_f (Temp (MainPart ?filled)) 1 = ''21.2''"
    by (simp add: unknown_icon_def clear_sky_def empty_request_def) code_simp
  from unknown_icon_degrades [of "''99x''" _ ?args ?E "Finite (9 / 2)" "Finite (209 / 4)" ?rq
      ?filled ?w "[]" "sample_json (data_of ?E ?filled ?w)"]
    len long lat new query entries' absent marshal
  have "icons_at ''99x'' = [] \<and> status (Run ?E ?args) = Returned
      \<and> Text (data_of ?E ?filled ?w) = '' '' @ FormatFloat_f (Temp (MainPart ?filled)) 1 @ degC"
    by simp
  with absent entries temp show ?thesis
    by simp
qed

section \<open>Properties of the tooltip\<close>

lemma Join_tooltip:
  "tooltip caser desc f p h sr ss w =
     TrimLeftFunc (caser desc @ nl @ labelled_lines f p h sr ss w) IsSpace"
  by (simp add: tooltip_def labelled_lines_def)

lemma TrimLeftFunc_no_space: "\<not> starts_with_space (TrimLeftFunc s IsSpace)"
proof (induction s "IsSpace" rule: TrimLeftFunc.induct)
  case (1 s)
  show ?case
  proof (cases "s = []")
    case True
    then show ?thesis
      by (simp add: TrimLeftFunc.simps starts_with_space_def)
  next
    case False
    show ?thesis
    proof (cases "IsSpace (fst (DecodeRuneInString s))")
      case True
      with False 1 show ?thesis
        by (simp add: TrimLeftFunc.simps [of s])
    next
      case nsp: False
      with False show ?thesis
        by (simp add: TrimLeftFunc.simps [of s] starts_with_space_def)
    qed
  qed
qed

lemma TrimLeftFunc_keep: "\<not> starts_with_space s \<Longrightarrow> TrimLeftFunc s IsSpace = s"
  by (subst TrimLeftFunc.simps) (auto simp: starts_with_space_def)

lemma DecodeRune_before_nl:
  assumes "xs \<noteq> []"
  shows "DecodeRune (xs @ 0x0A # ys) = DecodeRune xs"
proof -
  from assms consider a where "xs = [a]" | a b where "xs = [a, b]"
    | a b c where "xs = [a, b, c]" | a b c d zs where "xs = a # b # c # d # zs"
    by (metis list.exhaust)
  then show ?thesis
    by cases (auto simp: Let_def rune_size_def accept_lo_def accept_hi_def locb_def hicb_def)
qed

lemma starts_with_space_before_nl:
  "s \<noteq> [] \<Longrightarrow> starts_with_space (s @ nl @ t) = starts_with_space s"
  using DecodeRune_before_nl [of "map of_char s" "map of_char t"]
  by (simp add: starts_with_space_def DecodeRuneInString_def nl_def)

lemma TrimLeftFunc_nl: "TrimLeftFunc (nl @ t) IsSpace = TrimLeftFunc t IsSpace"
  by (subst TrimLeftFunc.simps) (simp add: nl_def DecodeRuneInString_def IsSpace_def)

lemma labelled_not_space: "\<not> starts_with_space (labelled_lines f p h sr ss w)"
  by (simp add: labelled_lines_def starts_with_space_def DecodeRuneInString_def IsSpace_def)

lemma tooltip_empty_title:
  "caser desc = [] \<Longrightarrow> tooltip caser desc f p h sr ss w = labelled_lines f p h sr ss w"
  by (simp add: Join_tooltip TrimLeftFunc_nl TrimLeftFunc_keep labelled_not_space)

lemma tooltip_plain_title:
  assumes "caser desc \<noteq> []" and "\<not> starts_with_space (caser desc)"
  shows "tooltip caser desc f p h sr ss w = caser desc @ nl @ labelled_lines f p h sr ss w"
proof -
  have "\<not> starts_with_space (caser desc @ nl @ labelled_lines f p h sr ss w)"
    using assms by (simp add: starts_with_space_before_nl)
  then show ?thesis
    by (simp add: Join_tooltip TrimLeftFunc_keep)
qed

text \<open>
  C4, as the claim states it: for every seven inputs the title-cased description is the
  first line of the result and the six labelled lines follow it. With an empty description
  (what \<^verbatim>\<open>description\<close> returns for an unknown condition ID) the joined string starts
  with a newline, which the trimming removes, so the result is not the description line
  followed by the labelled lines: it starts with the feels-like line.
\<close>

theorem tooltip_first_line_counterexample:
  "title_ascii [] = [] \<and>
   tooltip title_ascii [] ''20'' ''1013'' ''55'' ''06:30 CET'' ''18:45 CET'' ''3''
     \<noteq> title_ascii [] @ nl @ labelled_lines ''20'' ''1013'' ''55'' ''06:30 CET'' ''18:45 CET'' ''3''"
proof -
  have t: "title_ascii [] = []"
    by (simp add: title_ascii_def)
  have "tooltip title_ascii [] ''20'' ''1013'' ''55'' ''06:30 CET'' ''18:45 CET'' ''3''
      = labelled_lines ''20'' ''1013'' ''55'' ''06:30 CET'' ''18:45 CET'' ''3''"
    using t by (rule tooltip_empty_title)
  with t show ?thesis
    by (simp add: nl_def)
qed

text \<open>
  C4, amended: for every seven inputs, \<^verbatim>\<open>tooltip\<close> returns the title-cased description,
  a newline and the six labelled lines (feels like, pressure, humidity, sunrise, sunset,
  wind speed, separated by newlines), with all leading whitespace stripped, so the
  result never starts with whitespace. The title-cased description is the first line,
  followed by the six labelled lines, whenever it is not empty and does not start with
  whitespace; when it is empty the result consists of the six labelled lines only.
\<close>

theorem tooltip_lines:
  "tooltip caser desc f p h sr ss w =
      TrimLeftFunc (caser desc @ nl @ labelled_lines f p h sr ss w) IsSpace
   \<and> \<not> starts_with_space (tooltip caser desc f p h sr ss w)
   \<and> (caser desc \<noteq> [] \<and> \<not> starts_with_space (caser desc) \<longrightarrow>
        tooltip caser desc f p h sr ss w = caser desc @ nl @ labelled_lines f p h sr ss w)
   \<and> (caser desc = [] \<longrightarrow> tooltip caser desc f p h sr ss w = labelled_lines f p h sr ss w)"
  using Join_tooltip [of caser desc f p h sr ss w] TrimLeftFunc_no_space
    tooltip_plain_title [of caser desc f p h sr ss w]
    tooltip_empty_title [of caser desc f p h sr ss w]
  by simp

theorem tooltip_lines_witness:
  "title_ascii ''clear sky'' \<noteq> [] \<and> \<not> starts_with_space (title_ascii ''clear sky'')
   \<and> tooltip title_ascii ''clear sky'' ''20'' ''1013'' ''55'' ''06:30 CET'' ''18:45 CET'' ''3'' =
      ''Clear Sky'' @ nl @ ''Feels like 20'' @ degC @ nl @ ''Pressure 1013 hPa'' @ nl @
      ''Humidity 55%'' @ nl @ ''Sunrise 06:30 CET'' @ nl @ ''Sunset 18:45 CET'' @ nl @
      ''Wind speed 3 m/sec''
   \<and> title_ascii [] = []
   \<and> tooltip title_ascii [] ''20'' ''1013'' ''55'' ''06:30 CET'' ''18:45 CET'' ''3'' =
      ''Feels like 20'' @ degC @ nl @ ''Pressure 1013 hPa'' @ nl @
      ''Humidity 55%'' @ nl @ ''Sunrise 06:30 CET'' @ nl @ ''Sunset 18:45 CET'' @ nl @
      ''Wind speed 3 m/sec''"
proof -
  have title: "title_ascii ''clear sky'' = ''Clear Sky''"
    by code_simp
  have plain: "title_ascii ''clear sky'' \<noteq> [] \<and> \<not> starts_with_space (title_ascii ''clear sky'')"
    unfolding title by (simp add: starts_with_space_def DecodeRuneInString_def IsSpace_def)
  have none: "title_ascii [] = []"
    by (simp add: title_ascii_def)
  from plain tooltip_lines [of title_ascii "''clear sky''" "''20''" "''1013''" "''55''"
      "''06:30 CET''" "''18:45 CET''" "''3''"]
  have one: "tooltip title_ascii ''clear sky'' ''20'' ''1013'' ''55'' ''06:30 CET'' ''18:45 CET'' ''3'' =
      title_ascii ''clear sky'' @ nl @
      labelled_lines ''20'' ''1013'' ''55'' ''06:30 CET'' ''18:45 CET'' ''3''"
    by blast
  from none tooltip_lines [of title_ascii "[]" "''20''" "''1013''" "''55''"
      "''06:30 CET''" "''18:45 CET''" "''3''"]
  have two: "tooltip title_ascii [] ''20'' ''1013'' ''55'' ''06:30 CET'' ''18:45 CET'' ''3'' =
      labelled_lines ''20'' ''1013'' ''55'' ''06:30 CET'' ''18:45 CET'' ''3''"
    by blast
  show ?thesis
    using plain none one two unfolding title by (simp add: labelled_lines_def)
qed

section \<open>Properties of the number formats\<close>

lemma is_digit_digit: "d < 10 \<Longrightarrow> is_digit (digit d)"
proof -
  assume "d < 10"
  then have "d \<in> {0, 1, 2, 3, 4, 5, 6, 7, 8, 9}"
    by auto
  then show ?thesis
    by (auto simp: is_digit_def digit_def)
qed

lemma digits_all: "list_all is_digit (digits n) \<and> digits n \<noteq> []"
proof (induction n rule: digits.induct)
  case (1 n)
  show ?case
  proof (cases "n < 10")
    case True
    then show ?thesis
      by (simp add: digits.simps [of n] is_digit_digit)
  next
    case False
    with 1 show ?thesis
      by (simp add: digits.simps [of n] is_digit_digit)
  qed
qed

lemma integer_string_digits: "integer_string (digits n)"
proof (cases "digits n")
  case Nil
  with digits_all [of n] show ?thesis
    by simp
next
  case (Cons c cs)
  with digits_all [of n] have "is_digit c"
    by simp
  then have "c \<noteq> CHR ''-''"
    by (auto simp: is_digit_def)
  with Cons digits_all [of n] show ?thesis
    by (simp add: integer_string_def)
qed

lemma integer_string_minus: "integer_string (CHR ''-'' # digits n)"
  using digits_all [of n] by (simp add: integer_string_def)

lemma integer_string_FormatInt: "integer_string (FormatInt i)"
  by (simp add: FormatInt_def integer_string_digits integer_string_minus)

lemma integer_string_FormatFloat_0: "is_finite x \<Longrightarrow> integer_string (FormatFloat_f x 0)"
  using integer_string_digits integer_string_minus
  by (cases x) (simp_all add: FormatFloat_f_def is_finite_def Let_def)

lemma FormatFloat_1_shape:
  assumes "is_finite x"
  shows "\<exists>whole d. FormatFloat_f x 1 = whole @ ''.'' @ [d] \<and> integer_string whole \<and> is_digit d"
proof -
  define n where "n = round_half_even (magnitude x * 10 ^ 1)"
  define whole where "whole = (if signbit x then ''-'' else []) @ digits (n div 10)"
  have "FormatFloat_f x 1 = whole @ ''.'' @ [digit (n mod 10)]"
    using assms by (cases x) (simp_all add: FormatFloat_f_def is_finite_def Let_def n_def whole_def)
  moreover have "integer_string whole"
    by (simp add: whole_def integer_string_digits integer_string_minus)
  moreover have "is_digit (digit (n mod 10))"
    by (simp add: is_digit_digit)
  ultimately show ?thesis
    by blast
qed

lemma int64_truncates: "fits_int64 x \<Longrightarrow> int64 ovf x = toward_zero (value_of x)"
  by (cases x)
    (auto simp: int64_def discard_fraction_def signbit_def magnitude_def value_of_def
      toward_zero_def ceiling_def fits_int64_def is_finite_def)

lemma Tooltip_data_of:
  "Tooltip (data_of E rq w) =
    tooltip (TitleGerman E) (description (Conditions E) (WeatherID w))
      (FormatInt (int64 (Overflow E) (FeelsLike (MainPart rq))))
      (FormatInt (int64 (Overflow E) (Pressure (MainPart rq))))
      (FormatInt (Humidity (MainPart rq)))
      (FormatTime E (Sunrise (Sys rq)))
      (FormatTime E (Sunset (Sys rq)))
      (FormatFloat_f (Speed (Wind rq)) 0)"
  by (simp add: data_of_def)

lemma digits_numeral:
  "digits (numeral k) =
    (if numeral k < (10::nat) then [digit (numeral k)]
     else digits (numeral k div 10) @ [digit (numeral k mod 10)])"
  by (rule digits.simps)

text \<open>
  C5, as the claim states it: for every response the feels-like value is rendered as the
  integer obtained by truncation. A feels-like value of 2 to the power 63 is a
  \<^verbatim>\<open>float64\<close> whose truncation, 9223372036854775808, is no \<^verbatim>\<open>int64\<close>; the conversion
  yields an implementation-dependent \<^verbatim>\<open>int64\<close> (on amd64 the smallest one), and that is
  what the tooltip shows.
\<close>

theorem tooltip_truncation_counterexample:
  "FormatInt (toward_zero (value_of (FeelsLike (MainPart scorching)))) = ''9223372036854775808''
   \<and> Tooltip (data_of (sample_env (Inr scorching)) scorching
        \<lparr>WeatherID = 800, WeatherIcon = ''01d''\<rparr>) =
      ''Clear Sky'' @ nl @ ''Feels like -9223372036854775808'' @ degC @ nl @
      ''Pressure 1013 hPa'' @ nl @ ''Humidity 55%'' @ nl @ ''Sunrise 22:13 UTC'' @ nl @
      ''Sunset 06:33 UTC'' @ nl @ ''Wind speed 4 m/sec''"
proof -
  let ?E = "sample_env (Inr scorching)"
  have feels: "FeelsLike (MainPart scorching) = Finite 9223372036854775808"
    and pressure: "Pressure (MainPart scorching) = Finite 1013"
    and humidity: "Humidity (MainPart scorching) = 55"
    and sun: "Sunrise (Sys scorching) = 1700000000" "Sunset (Sys scorching) = 1700030000"
    and wind: "Speed (Wind scorching) = Finite (7 / 2)"
    by (simp_all add: scorching_def clear_sky_def empty_request_def)
  have truncated: "FormatInt (toward_zero (value_of (Finite 9223372036854775808))) =
      ''9223372036854775808''"
    by (simp add: FormatInt_def digits_numeral digit_def toward_zero_def value_of_def)
  have shown: "FormatInt (int64 ovf_amd64 (Finite 9223372036854775808)) = ''-9223372036854775808''"
    by (simp add: int64_def fits_int64_def discard_fraction_def signbit_def magnitude_def
        ovf_amd64_def FormatInt_def digits_numeral digit_def)
  have "int64 ovf_amd64 (Finite 1013) = 1013"
    by (simp add: int64_def fits_int64_def discard_fraction_def signbit_def magnitude_def
        is_finite_def)
  moreover have "FormatInt 1013 = ''1013''"
    by code_simp
  ultimately have p: "FormatInt (int64 ovf_amd64 (Finite 1013)) = ''1013''"
    by simp
  have h: "FormatInt 55 = ''55''"
    by code_simp
  have rise: "sample_FormatTime 1700000000 = ''22:13 UTC''"
    by code_simp
  have set: "sample_FormatTime 1700030000 = ''06:33 UTC''"
    by code_simp
  have w: "FormatFloat_f (Finite (7 / 2)) 0 = ''4''"
    by code_simp
  have desc: "description sample_tables 800 = ''clear sky''"
    by code_simp
  have title: "title_ascii ''clear sky'' = ''Clear Sky''"
    by code_simp
  have plain: "title_ascii ''clear sky'' \<noteq> [] \<and> \<not> starts_with_space (title_ascii ''clear sky'')"
    unfolding title by (simp add: starts_with_space_def DecodeRuneInString_def IsSpace_def)
  have env: "TitleGerman ?E = title_ascii" "Conditions ?E = sample_tables"
    "Overflow ?E = ovf_amd64" "FormatTime ?E = sample_FormatTime"
    by (simp_all add: sample_env_def)
  have "Tooltip (data_of ?E scorching \<lparr>WeatherID = 800, WeatherIcon = ''01d''\<rparr>) =
      tooltip title_ascii ''clear sky'' ''-9223372036854775808'' ''1013'' ''55''
        ''22:13 UTC'' ''06:33 UTC'' ''4''"
    by (simp add: Tooltip_data_of env feels pressure humidity sun wind shown p h rise set w desc)
  also have "\<dots> = title_ascii ''clear sky'' @ nl @
      labelled_lines ''-9223372036854775808'' ''1013'' ''55'' ''22:13 UTC'' ''06:33 UTC'' ''4''"
    using plain by (simp add: tooltip_plain_title)
  finally have "Tooltip (data_of ?E scorching \<lparr>WeatherID = 800, WeatherIcon = ''01d''\<rparr>) =
      ''Clear Sky'' @ nl @
      labelled_lines ''-9223372036854775808'' ''1013'' ''55'' ''22:13 UTC'' ''06:33 UTC'' ''4''"
    unfolding title .
  then show ?thesis
    using truncated by (simp add: feels labelled_lines_def)
qed

text \<open>
  C5, amended: for every response whose feels-like and pressure values are finite and,
  without their fraction, lie in the range of a signed 64-bit integer, these two values
  are rendered in the tooltip as the integers obtained by truncation toward zero (not by
  rounding), the humidity, an integer already, is rendered as it is, and a finite wind
  speed is rendered as an integer too (no decimal point, no fraction digits).
\<close>

theorem tooltip_numbers_truncated:
  assumes "fits_int64 (FeelsLike (MainPart rq))"
    and "fits_int64 (Pressure (MainPart rq))"
    and "is_finite (Speed (Wind rq))"
  shows "Tooltip (data_of E rq w) =
    tooltip (TitleGerman E) (description (Conditions E) (WeatherID w))
      (FormatInt (toward_zero (value_of (FeelsLike (MainPart rq)))))
      (FormatInt (toward_zero (value_of (Pressure (MainPart rq)))))
      (FormatInt (Humidity (MainPart rq)))
      (FormatTime E (Sunrise (Sys rq)))
      (FormatTime E (Sunset (Sys rq)))
      (FormatFloat_f (Speed (Wind rq)) 0)
    \<and> integer_string (FormatInt (toward_zero (value_of (FeelsLike (MainPart rq)))))
    \<and> integer_string (FormatInt (toward_zero (value_of (Pressure (MainPart rq)))))
    \<and> integer_string (FormatInt (Humidity (MainPart rq)))
    \<and> integer_string (FormatFloat_f (Speed (Wind rq)) 0)"
  using assms
  by (simp add: Tooltip_data_of int64_truncates integer_string_FormatInt
      integer_string_FormatFloat_0)

text \<open>
  Evaluation on the clear-sky response: a feels-like value of 20.75 is shown as 20 (rounding
  would give 21), and the wind speed 3.5 as 4.
\<close>

theorem tooltip_numbers_truncated_witness:
  "fits_int64 (FeelsLike (MainPart clear_sky)) \<and> fits_int64 (Pressure (MainPart clear_sky))
   \<and> is_finite (Speed (Wind clear_sky))
   \<and> FeelsLike (MainPart clear_sky) = Finite (83 / 4)
   \<and> Speed (Wind clear_sky) = Finite (7 / 2)
   \<and> Tooltip (data_of (sample_env (Inr clear_sky)) clear_sky
        \<lparr>WeatherID = 800, WeatherIcon = ''01d''\<rparr>) =
      tooltip title_ascii ''clear sky'' ''20'' ''1013'' ''55'' ''22:13 UTC'' ''06:33 UTC'' ''4''"
proof -
  let ?E = "sample_env (Inr clear_sky)"
  have feels: "FeelsLike (MainPart clear_sky) = Finite (83 / 4)"
    and pressure: "Pressure (MainPart clear_sky) = Finite 1013"
    and humidity: "Humidity (MainPart clear_sky) = 55"
    and sun: "Sunrise (Sys clear_sky) = 1700000000" "Sunset (Sys clear_sky) = 1700030000"
    and wind: "Speed (Wind clear_sky) = Finite (7 / 2)"
    by (simp_all add: clear_sky_def empty_request_def)
  have fits1: "fits_int64 (FeelsLike (MainPart clear_sky))"
    unfolding feels by code_simp
  have fits2: "fits_int64 (Pressure (MainPart clear_sky))"
    unfolding pressure by code_simp
  have fin: "is_finite (Speed (Wind clear_sky))"
    unfolding wind by (simp add: is_finite_def)
  have f: "FormatInt (toward_zero (value_of (Finite (83 / 4)))) = ''20''"
    by code_simp
  have p: "FormatInt (toward_zero (value_of (Finite 1013))) = ''1013''"
    by code_simp
  have h: "FormatInt 55 = ''55''"
    by code_simp
  have rise: "sample_FormatTime 1700000000 = ''22:13 UTC''"
    by code_simp
  have set: "sample_FormatTime 1700030000 = ''06:33 UTC''"
    by code_simp
  have w: "FormatFloat_f (Finite (7 / 2)) 0 = ''4''"
    by code_simp
  have desc: "description sample_tables 800 = ''clear sky''"
    by code_simp
  have env: "TitleGerman ?E = title_ascii" "Conditions ?E = sample_tables"
    "FormatTime ?E = sample_FormatTime"
    by (simp_all add: sample_env_def)
  from tooltip_numbers_truncated [OF fits1 fits2 fin, of ?E "\<lparr>WeatherID = 800, WeatherIcon = ''01d''\<rparr>"]
  have "Tooltip (data_of ?E clear_sky \<lparr>WeatherID = 800, WeatherIcon = ''01d''\<rparr>) =
      tooltip title_ascii ''clear sky'' ''20'' ''1013'' ''55'' ''22:13 UTC'' ''06:33 UTC'' ''4''"
    by (simp add: env feels pressure humidity sun wind f p h rise set w desc)
  with fits1 fits2 fin feels wind show ?thesis
    by blast
qed

text \<open>
  C9. For every icon string and temperature string, \<^verbatim>\<open>text\<close> returns the icon, one
  space, the temperature and the suffix made of a space, the degree sign and C; applied
  to the sun pictogram and 21.3 it returns the sun pictogram followed by " 21.3 \<degree>C". In
  \<^verbatim>\<open>Run\<close> the temperature string is the temperature formatted with precision 1, which
  for a finite value has exactly one digit after the decimal point.
\<close>

theorem text_concatenation:
  "text_str icon temp = icon @ '' '' @ temp @ [CHR 0x20, CHR 0xC2, CHR 0xB0, CHR ''C'']
   \<and> text_str [CHR 0xE2, CHR 0x98, CHR 0x80, CHR 0xEF, CHR 0xB8, CHR 0x8F] ''21.3'' =
       [CHR 0xE2, CHR 0x98, CHR 0x80, CHR 0xEF, CHR 0xB8, CHR 0x8F] @ '' 21.3 '' @
       [CHR 0xC2, CHR 0xB0] @ ''C''
   \<and> Text (data_of E rq w) =
       text_str (icons_at (WeatherIcon w)) (FormatFloat_f (Temp (MainPart rq)) 1)
   \<and> (is_finite t \<longrightarrow>
       (\<exists>whole d. FormatFloat_f t 1 = whole @ ''.'' @ [d] \<and> integer_string whole \<and> is_digit d))"
proof (intro conjI impI)
  show "text_str icon temp = icon @ '' '' @ temp @ [CHR 0x20, CHR 0xC2, CHR 0xB0, CHR ''C'']"
    by (simp add: text_str_def degC_def)
  show "text_str [CHR 0xE2, CHR 0x98, CHR 0x80, CHR 0xEF, CHR 0xB8, CHR 0x8F] ''21.3'' =
       [CHR 0xE2, CHR 0x98, CHR 0x80, CHR 0xEF, CHR 0xB8, CHR 0x8F] @ '' 21.3 '' @
       [CHR 0xC2, CHR 0xB0] @ ''C''"
    by (simp add: text_str_def degC_def)
  show "Text (data_of E rq w) =
       text_str (icons_at (WeatherIcon w)) (FormatFloat_f (Temp (MainPart rq)) 1)"
    by (rule Text_data_of)
  show "\<exists>whole d. FormatFloat_f t 1 = whole @ ''.'' @ [d] \<and> integer_string whole \<and> is_digit d"
    if "is_finite t"
    using that by (rule FormatFloat_1_shape)
qed

theorem text_concatenation_witness:
  "is_finite (Finite (85 / 4))
   \<and> (\<exists>whole d. FormatFloat_f (Finite (85 / 4)) 1 = whole @ ''.'' @ [d]
        \<and> integer_string whole \<and> is_digit d)
   \<and> FormatFloat_f (Finite (85 / 4)) 1 = ''21.2''"
proof -
  have fin: "is_finite (Finite (85 / 4))"
    by (simp add: is_finite_def)
  have shown: "FormatFloat_f (Finite (85 / 4)) 1 = ''21.2''"
    by code_simp
  from text_concatenation [of _ _ _ _ _ "Finite (85 / 4)"] fin
  have "\<exists>whole d. FormatFloat_f (Finite (85 / 4)) 1 = whole @ ''.'' @ [d]
        \<and> integer_string whole \<and> is_digit d"
    by blast
  with fin shown show ?thesis
    by blast
qed

end
